theory Spec2Isabelle
  imports Main
begin

section \<open>The initialisation guard of src/utils/firebase/initAuth.ts\<close>

subsection \<open>The environment\<close>

text \<open>
  \<^verbatim>\<open>process.env\<close> maps the name of a variable to its value. A value is a string; a
  variable that is not set reads as \<^verbatim>\<open>undefined\<close>, which is \<open>None\<close> here.
\<close>

type_synonym env = "string \<Rightarrow> string option"

text \<open>
  JavaScript's \<^verbatim>\<open>!v\<close> for a value that is a string or \<^verbatim>\<open>undefined\<close>: true for
  \<^verbatim>\<open>undefined\<close> and for the empty string, false for every other string.
\<close>

definition falsy :: "string option \<Rightarrow> bool" where
  "falsy v = (case v of None \<Rightarrow> True | Some s \<Rightarrow> s = [])"

subsection \<open>The configuration object\<close>

definition TWELVE_DAYS_IN_MS :: int where
  "TWELVE_DAYS_IN_MS = 12 * 60 * 60 * 24 * 1000"

text \<open>
  The five callbacks of the configuration are the same arrow function,
  \<^verbatim>\<open>(err) => { console.error(err); }\<close>.
\<close>

datatype handler = ConsoleError

record adminCredential =
  projectId :: "string option"
  clientEmail :: "string option"
  privateKey :: "string option"

record adminInitConfig =
  credential :: adminCredential
  databaseURL :: "string option"
  storageBucket :: "string option"

text \<open>
  The client object has fields named \<^verbatim>\<open>databaseURL\<close>, \<^verbatim>\<open>projectId\<close> and
  \<^verbatim>\<open>storageBucket\<close> too; they carry the prefix \<open>client\<close> here, since the fields of two
  records share one name space.
\<close>

record clientInitConfig =
  apiKey :: "string option"
  authDomain :: "string option"
  clientDatabaseURL :: "string option"
  clientProjectId :: "string option"
  clientStorageBucket :: "string option"
  messagingSenderId :: "string option"

record cookieConfig =
  name :: string
  keys :: "string option list"
  httpOnly :: bool
  maxAge :: int
  overwrite :: bool
  path :: string
  sameSite :: string
  secure :: bool
  signed :: bool

record customInitConfig =
  authPageURL :: string
  appPageURL :: string
  loginAPIEndpoint :: string
  logoutAPIEndpoint :: string
  onLoginRequestError :: handler
  onLogoutRequestError :: handler
  firebaseAdminInitConfig :: adminInitConfig
  firebaseClientInitConfig :: clientInitConfig
  cookies :: cookieConfig
  onVerifyTokenError :: handler
  onTokenRefreshError :: handler

text \<open>
  \<^verbatim>\<open>initConfig\<close> is a module-level constant: the object is built once, when the module
  is evaluated, from the environment of that moment (\<open>env\<close> below). The helper
  \<^verbatim>\<open>getPrivateKey\<close> is imported from \<^verbatim>\<open>./getPrivateKey\<close>, a file that is not part of the
  sources at hand, so the value its one call returns is a parameter (\<open>pk\<close> below: a
  string, or \<^verbatim>\<open>undefined\<close>); nothing is assumed here about how it is computed.
\<close>

definition initConfig :: "string option \<Rightarrow> env \<Rightarrow> customInitConfig" where
  "initConfig pk env =
    \<lparr> authPageURL = ''/log-in'',
      appPageURL = ''/'',
      loginAPIEndpoint = ''/api/log-in'',
      logoutAPIEndpoint = ''/api/log-out'',
      onLoginRequestError = ConsoleError,
      onLogoutRequestError = ConsoleError,
      firebaseAdminInitConfig =
        \<lparr> credential =
            \<lparr> projectId = env ''NEXT_PUBLIC_FIREBASE_PROJECT_ID'',
              clientEmail = env ''FIREBASE_CLIENT_EMAIL'',
              privateKey = pk \<rparr>,
          databaseURL = env ''NEXT_PUBLIC_FIREBASE_DATABASE_URL'',
          storageBucket = env ''NEXT_PUBLIC_STORAGE_BUCKET'' \<rparr>,
      firebaseClientInitConfig =
        \<lparr> apiKey = env ''NEXT_PUBLIC_FIREBASE_PUBLIC_API_KEY'',
          authDomain = env ''NEXT_PUBLIC_FIREBASE_AUTH_DOMAIN'',
          clientDatabaseURL = env ''NEXT_PUBLIC_FIREBASE_DATABASE_URL'',
          clientProjectId = env ''NEXT_PUBLIC_FIREBASE_PROJECT_ID'',
          clientStorageBucket = env ''NEXT_PUBLIC_STORAGE_BUCKET'',
          messagingSenderId = env ''NEXT_PUBLIC_MESSAGING_SENDER_ID'' \<rparr>,
      cookies =
        \<lparr> name = ''AgaveAuth'',
          keys = [env ''COOKIE_SECRET_CURRENT'', env ''COOKIE_SECRET_PREVIOUS''],
          httpOnly = True,
          maxAge = TWELVE_DAYS_IN_MS,
          overwrite = True,
          path = ''/'',
          sameSite = ''Strict'',
          secure = (env ''NEXT_PUBLIC_COOKIE_SECURE'' = Some ''true''),
          signed = True \<rparr>,
      onVerifyTokenError = ConsoleError,
      onTokenRefreshError = ConsoleError \<rparr>"

text \<open>
  Modelled from the spec: \<^verbatim>\<open>getPrivateKey\<close> of \<^verbatim>\<open>src/utils/firebase/getPrivateKey.ts\<close>,
  which is missing from the sources. The spec's data model says of the configuration
  values that they are read once and passed through unmodified, and the README names the
  variable of the private key, so the helper returns the value of
  \<^verbatim>\<open>FIREBASE_PRIVATE_KEY\<close> as it stands. Only the statements about two processes in
  different environments use it; every other statement holds for any value of \<open>pk\<close>.
\<close>

definition getPrivateKey :: "env \<Rightarrow> string option" where
  "getPrivateKey env = env ''FIREBASE_PRIVATE_KEY''"

subsection \<open>The process: the latch and what the module does to the outside\<close>

text \<open>
  A call ends in one of two ways: it returns, or it leaves with an exception.
\<close>

datatype completion = Returned | Threw

text \<open>
  \<^verbatim>\<open>init\<close> belongs to the library next-firebase-auth, not to this repository. The source
  says of it that it validates the configuration and can crash, and the call is not
  wrapped in \<^verbatim>\<open>try\<close>. So how a call \<^verbatim>\<open>init(config)\<close> ends is a parameter of the model:
  a function of the side the call is made on (\<open>True\<close> in a browser) and of the object
  passed.
\<close>

type_synonym library = "bool \<Rightarrow> customInitConfig \<Rightarrow> completion"

text \<open>
  The module acts on the outside in two ways: it writes a warning to the console, and it
  calls \<^verbatim>\<open>init\<close>. Both are recorded, in order: a warning with its text, a call of
  \<^verbatim>\<open>init\<close> with its argument and with the way the call ended.
\<close>

datatype event = is_Warn: Warn string | is_Init: Init customInitConfig completion

record process =
  hasInitialized :: bool
  effects :: "event list"

text \<open>Evaluating the module: \<^verbatim>\<open>let hasInitialized = false\<close>, and nothing has happened yet.\<close>

definition load :: process where
  "load = \<lparr> hasInitialized = False, effects = [] \<rparr>"

definition MISSING_API_KEY :: string where
  "MISSING_API_KEY =
    ''next-firebase-auth not initialized: missing NEXT_PUBLIC_FIREBASE_PUBLIC_API_KEY. See .env.local.example.''"

definition MISSING_ADMIN :: string where
  "MISSING_ADMIN =
    ''next-firebase-auth not initialized on server: missing Firebase Admin / cookie env vars. See .env.local.example.''"

definition missingAdmin :: "env \<Rightarrow> bool" where
  "missingAdmin env =
    (falsy (env ''NEXT_PUBLIC_FIREBASE_PROJECT_ID'') \<or>
     falsy (env ''NEXT_PUBLIC_FIREBASE_DATABASE_URL'') \<or>
     falsy (env ''FIREBASE_CLIENT_EMAIL'') \<or>
     falsy (env ''FIREBASE_PRIVATE_KEY'') \<or>
     falsy (env ''COOKIE_SECRET_CURRENT'') \<or>
     falsy (env ''COOKIE_SECRET_PREVIOUS''))"

text \<open>
  One call of \<^verbatim>\<open>initAuth()\<close>. \<open>init\<close> is the library's function; \<open>cfg\<close> is the module's
  constant \<^verbatim>\<open>initConfig\<close>; \<open>windowDefined\<close> says whether \<^verbatim>\<open>typeof window\<close> is something
  other than \<^verbatim>\<open>"undefined"\<close> (a browser); \<open>env\<close> is \<^verbatim>\<open>process.env\<close> at the time of the
  call. The result is the way the call ends and the process after it. When \<^verbatim>\<open>init\<close>
  throws, the exception leaves \<^verbatim>\<open>initAuth\<close> before \<^verbatim>\<open>hasInitialized = true\<close> is reached.
\<close>

definition initAuth ::
    "library \<Rightarrow> customInitConfig \<Rightarrow> bool \<Rightarrow> env \<Rightarrow> process \<Rightarrow> completion \<times> process" where
  "initAuth init cfg windowDefined env st =
    (if hasInitialized st then (Returned, st)
     else if falsy (env ''NEXT_PUBLIC_FIREBASE_PUBLIC_API_KEY'')
       then (Returned, st\<lparr> effects := effects st @ [Warn MISSING_API_KEY] \<rparr>)
     else if (\<not> windowDefined) \<and> missingAdmin env
       then (Returned, st\<lparr> effects := effects st @ [Warn MISSING_ADMIN] \<rparr>)
     else (case init windowDefined cfg of
         Threw \<Rightarrow> (Threw, st\<lparr> effects := effects st @ [Init cfg Threw] \<rparr>)
       | Returned \<Rightarrow>
           (Returned, st\<lparr> effects := effects st @ [Init cfg Returned], hasInitialized := True \<rparr>)))"

text \<open>
  A sequence of calls in one process; each call comes with the value of
  \<^verbatim>\<open>typeof window\<close> and the environment it finds. An exception goes to the caller of
  \<^verbatim>\<open>initAuth\<close>; the module and its latch stay as they are, and the next call finds them so.
\<close>

fun run :: "library \<Rightarrow> customInitConfig \<Rightarrow> (bool \<times> env) list \<Rightarrow> process \<Rightarrow> process" where
  "run init cfg [] st = st"
| "run init cfg ((w, e) # cs) st = run init cfg cs (snd (initAuth init cfg w e st))"

text \<open>
  The life of a process: the module is evaluated in the environment \<open>env0\<close>, which
  builds \<^verbatim>\<open>initConfig\<close> (with \<open>pk\<close>, the value \<^verbatim>\<open>getPrivateKey()\<close> returned) and clears
  the latch, and then \<^verbatim>\<open>initAuth\<close> is called any number of times.
\<close>

definition program :: "library \<Rightarrow> string option \<Rightarrow> env \<Rightarrow> (bool \<times> env) list \<Rightarrow> process" where
  "program init pk env0 cs = run init (initConfig pk env0) cs load"

text \<open>The same, with the private key that the helper reads from \<open>env0\<close>.\<close>

definition session :: "library \<Rightarrow> env \<Rightarrow> (bool \<times> env) list \<Rightarrow> process" where
  "session init env0 cs = program init (getPrivateKey env0) env0 cs"

text \<open>The number of calls of \<^verbatim>\<open>init\<close>, and the number of those that returned.\<close>

definition initCount :: "process \<Rightarrow> nat" where
  "initCount st = length (filter is_Init (effects st))"

definition initReturned :: "event \<Rightarrow> bool" where
  "initReturned ev = (case ev of Warn m \<Rightarrow> False | Init c r \<Rightarrow> r = Returned)"

definition initReturns :: "process \<Rightarrow> nat" where
  "initReturns st = length (filter initReturned (effects st))"

definition warnings :: "process \<Rightarrow> string list" where
  "warnings st = concat (map (\<lambda>ev. case ev of Warn m \<Rightarrow> [m] | Init c r \<Rightarrow> []) (effects st))"

subsection \<open>Which variables matter\<close>

text \<open>
  The variables the README lists as required: the Firebase client configuration and the
  variables for server-side token verification. (Its third group, the keys of the maps
  and forms integrations, belongs to other modules.)
\<close>

definition README_VARS :: "string list" where
  "README_VARS =
    [''NEXT_PUBLIC_FIREBASE_PUBLIC_API_KEY'',
     ''NEXT_PUBLIC_FIREBASE_AUTH_DOMAIN'',
     ''NEXT_PUBLIC_FIREBASE_PROJECT_ID'',
     ''NEXT_PUBLIC_FIREBASE_DATABASE_URL'',
     ''NEXT_PUBLIC_FIREBASE_APP_ID'',
     ''NEXT_PUBLIC_STORAGE_BUCKET'',
     ''NEXT_PUBLIC_MESSAGING_SENDER_ID'',
     ''FIREBASE_CLIENT_EMAIL'',
     ''FIREBASE_PRIVATE_KEY'',
     ''COOKIE_SECRET_CURRENT'',
     ''COOKIE_SECRET_PREVIOUS'',
     ''NEXT_PUBLIC_COOKIE_SECURE'']"

text \<open>
  Every \<^verbatim>\<open>process.env.X\<close> that occurs in initAuth.ts, in the order of first occurrence.
\<close>

definition READ_VARS :: "string list" where
  "READ_VARS =
    [''NEXT_PUBLIC_FIREBASE_PROJECT_ID'',
     ''FIREBASE_CLIENT_EMAIL'',
     ''NEXT_PUBLIC_FIREBASE_DATABASE_URL'',
     ''NEXT_PUBLIC_STORAGE_BUCKET'',
     ''NEXT_PUBLIC_FIREBASE_PUBLIC_API_KEY'',
     ''NEXT_PUBLIC_FIREBASE_AUTH_DOMAIN'',
     ''NEXT_PUBLIC_MESSAGING_SENDER_ID'',
     ''COOKIE_SECRET_CURRENT'',
     ''COOKIE_SECRET_PREVIOUS'',
     ''NEXT_PUBLIC_COOKIE_SECURE'',
     ''FIREBASE_PRIVATE_KEY'']"

text \<open>Two environments agree on the variables of a list.\<close>

definition agree :: "string list \<Rightarrow> env \<Rightarrow> env \<Rightarrow> bool" where
  "agree vs e e' = list_all (\<lambda>v. e v = e' v) vs"

text \<open>
  Two sequences of calls agree on the variables of a list: as many calls, each with the
  same \<^verbatim>\<open>typeof window\<close> and with environments that agree.
\<close>

definition agree_calls :: "string list \<Rightarrow> (bool \<times> env) list \<Rightarrow> (bool \<times> env) list \<Rightarrow> bool" where
  "agree_calls vs cs cs' = list_all2 (\<lambda>c c'. fst c = fst c' \<and> agree vs (snd c) (snd c')) cs cs'"

text \<open>Two environments differ at most in the variable \<open>v\<close>.\<close>

definition same_but :: "string \<Rightarrow> env \<Rightarrow> env \<Rightarrow> bool" where
  "same_but v e e' = (\<forall>u. u \<noteq> v \<longrightarrow> e u = e' u)"

text \<open>
  The module consumes the variable \<open>v\<close> when changing \<open>v\<close> alone, in the environment the
  module is evaluated in or in the environment of a call, can change what a process
  does, for some behaviour of the library.
\<close>

definition consumes :: "string \<Rightarrow> bool" where
  "consumes v =
    (\<exists>init e0 e0' cs cs'.
       same_but v e0 e0' \<and>
       list_all2 (\<lambda>c c'. fst c = fst c' \<and> same_but v (snd c) (snd c')) cs cs' \<and>
       session init e0 cs \<noteq> session init e0' cs')"

subsection \<open>The latch and the record of calls\<close>

text \<open>
  The latch counts the calls of \<^verbatim>\<open>init\<close> that returned: it is set exactly when one has,
  and then exactly one has.
\<close>

definition tied :: "process \<Rightarrow> bool" where
  "tied st = (initReturns st = (if hasInitialized st then 1 else 0))"

text \<open>A library whose \<^verbatim>\<open>init\<close> accepts every configuration, and one that rejects every one.\<close>

definition accepting :: library where
  "accepting w c = Returned"

definition rejecting :: library where
  "rejecting w c = Threw"


section \<open>Properties\<close>

subsection \<open>Auxiliary facts\<close>

lemma falsy_iff: "falsy v \<longleftrightarrow> v = None \<or> v = Some []"
  by (simp add: falsy_def split: option.splits)

lemma not_falsy_iff: "(\<exists>k. v = Some k \<and> k \<noteq> []) \<longleftrightarrow> \<not> falsy v"
  by (cases v) (auto simp: falsy_def)

lemma missingAdmin_iff:
  "(\<exists>v \<in> {''NEXT_PUBLIC_FIREBASE_PROJECT_ID'', ''NEXT_PUBLIC_FIREBASE_DATABASE_URL'',
            ''FIREBASE_CLIENT_EMAIL'', ''FIREBASE_PRIVATE_KEY'',
            ''COOKIE_SECRET_CURRENT'', ''COOKIE_SECRET_PREVIOUS''}.
       env v = None \<or> env v = Some []) \<longleftrightarrow> missingAdmin env"
  by (simp add: missingAdmin_def falsy_iff)

lemma not_missingAdmin_iff:
  "(\<forall>v \<in> {''NEXT_PUBLIC_FIREBASE_PROJECT_ID'', ''NEXT_PUBLIC_FIREBASE_DATABASE_URL'',
            ''FIREBASE_CLIENT_EMAIL'', ''FIREBASE_PRIVATE_KEY'',
            ''COOKIE_SECRET_CURRENT'', ''COOKIE_SECRET_PREVIOUS''}.
       \<exists>x. env v = Some x \<and> x \<noteq> []) \<longleftrightarrow> \<not> missingAdmin env"
  by (simp add: missingAdmin_def not_falsy_iff)

lemma initAuth_latched: "hasInitialized st \<Longrightarrow> initAuth init cfg w e st = (Returned, st)"
  by (simp add: initAuth_def)

lemma run_latched: "hasInitialized st \<Longrightarrow> run init cfg cs st = st"
  by (induction cs arbitrary: st) (auto simp: initAuth_latched)

lemma run_append: "run init cfg (cs @ cs') st = run init cfg cs' (run init cfg cs st)"
  by (induction cs arbitrary: st) auto

lemma program_append:
  "program init pk e0 (cs @ cs') = run init (initConfig pk e0) cs' (program init pk e0 cs)"
  by (simp add: program_def run_append)

lemma tied_load: "tied load"
  by (simp add: tied_def load_def initReturns_def)

lemma tied_initAuth: "tied st \<Longrightarrow> tied (snd (initAuth init cfg w e st))"
  by (auto simp: tied_def initAuth_def initReturns_def initReturned_def
      split: if_splits completion.splits)

lemma tied_run: "tied st \<Longrightarrow> tied (run init cfg cs st)"
  by (induction cs arbitrary: st) (auto simp: tied_initAuth)

lemma tied_program: "tied (program init pk e0 cs)"
  by (simp add: program_def tied_run tied_load)

lemma returns_le_count: "initReturns st \<le> initCount st"
proof -
  have "filter initReturned (effects st) = filter initReturned (filter is_Init (effects st))"
    by (induction "effects st" arbitrary: st)
      (auto simp: initReturned_def split: event.splits intro: filter_cong)
  then show ?thesis
    by (simp add: initReturns_def initCount_def del: filter_filter)
qed

text \<open>Where \<^verbatim>\<open>init\<close> never throws, every call of it has returned.\<close>

lemma all_returned_initAuth:
  assumes "\<forall>w c. init w c = Returned" and "initCount st = initReturns st"
  shows "initCount (snd (initAuth init cfg w e st)) = initReturns (snd (initAuth init cfg w e st))"
  using assms
  by (auto simp: initAuth_def initCount_def initReturns_def initReturned_def
      split: completion.splits)

lemma all_returned_run:
  assumes "\<forall>w c. init w c = Returned"
  shows "initCount st = initReturns st \<Longrightarrow>
    initCount (run init cfg cs st) = initReturns (run init cfg cs st)"
proof (induction cs arbitrary: st)
  case Nil
  then show ?case by simp
next
  case (Cons a cs)
  obtain w e where a: "a = (w, e)" by (cases a)
  have "initCount (snd (initAuth init cfg w e st)) = initReturns (snd (initAuth init cfg w e st))"
    using assms Cons.prems by (rule all_returned_initAuth)
  then show ?case using a Cons.IH by simp
qed

lemma all_returned_program:
  "\<forall>w c. init w c = Returned \<Longrightarrow>
    initCount (program init pk e0 cs) = initReturns (program init pk e0 cs)"
  unfolding program_def
  by (rule all_returned_run) (simp_all add: load_def initCount_def initReturns_def)

lemma init_events_initAuth:
  "Init c r \<in> set (effects (snd (initAuth init cfg w e st))) \<Longrightarrow>
     c = cfg \<or> Init c r \<in> set (effects st)"
  by (auto simp: initAuth_def split: if_splits completion.splits)

lemma init_events_run:
  "Init c r \<in> set (effects (run init cfg cs st)) \<Longrightarrow> c = cfg \<or> Init c r \<in> set (effects st)"
proof (induction cs arbitrary: st)
  case Nil
  then show ?case by simp
next
  case (Cons a cs)
  obtain w e where a: "a = (w, e)" by (cases a)
  from Cons.prems a
  have "Init c r \<in> set (effects (run init cfg cs (snd (initAuth init cfg w e st))))"
    by simp
  then have "c = cfg \<or> Init c r \<in> set (effects (snd (initAuth init cfg w e st)))"
    by (rule Cons.IH)
  then show ?case using init_events_initAuth by blast
qed

lemma init_events_program:
  "Init c r \<in> set (effects (program init pk env0 cs)) \<Longrightarrow> c = initConfig pk env0"
  using init_events_run [of c r init "initConfig pk env0" cs load]
  by (simp add: program_def load_def)

subsection \<open>Auxiliary facts: which variables a process depends on\<close>

lemma initConfig_agree:
  "agree READ_VARS e e' \<Longrightarrow>
     initConfig (getPrivateKey e) e = initConfig (getPrivateKey e') e'"
  by (simp add: agree_def READ_VARS_def initConfig_def getPrivateKey_def)

lemma initAuth_agree:
  "agree READ_VARS e e' \<Longrightarrow> initAuth init cfg w e st = initAuth init cfg w e' st"
  by (simp add: agree_def READ_VARS_def initAuth_def missingAdmin_def)

lemma run_agree:
  "list_all2 (\<lambda>c c'. fst c = fst c' \<and> agree READ_VARS (snd c) (snd c')) cs cs' \<Longrightarrow>
     run init cfg cs st = run init cfg cs' st"
proof (induction cs cs' arbitrary: st rule: list_all2_induct)
  case Nil
  then show ?case by simp
next
  case (Cons c cs c' cs')
  obtain w e where c: "c = (w, e)" by (cases c)
  obtain w' e' where c': "c' = (w', e')" by (cases c')
  from Cons.hyps(1) c c' have "w = w'" and "agree READ_VARS e e'" by simp_all
  then have "initAuth init cfg w e st = initAuth init cfg w' e' st"
    by (simp add: initAuth_agree)
  then show ?case using c c' Cons.IH by simp
qed

lemma session_agree:
  assumes "agree READ_VARS e0 e0'"
    and "list_all2 (\<lambda>c c'. fst c = fst c' \<and> agree READ_VARS (snd c) (snd c')) cs cs'"
  shows "session init e0 cs = session init e0' cs'"
  using assms(2)
  by (simp add: session_def program_def initConfig_agree [OF assms(1)] run_agree)

lemma agree_mono: "set vs \<subseteq> set ws \<Longrightarrow> agree ws e e' \<Longrightarrow> agree vs e e'"
  by (auto simp: agree_def list_all_iff)

lemma READ_subset_README: "set READ_VARS \<subseteq> set README_VARS"
  by (simp add: READ_VARS_def README_VARS_def)

lemma READ_VARS_eq:
  "v \<in> set READ_VARS \<longleftrightarrow> v \<in> set README_VARS \<and> v \<noteq> ''NEXT_PUBLIC_FIREBASE_APP_ID''"
  by (auto simp: READ_VARS_def README_VARS_def)

lemma same_but_agree: "v \<notin> set vs \<Longrightarrow> same_but v e e' \<Longrightarrow> agree vs e e'"
  by (auto simp: agree_def same_but_def list_all_iff)

text \<open>A variable that is never read cannot change what a process does.\<close>

lemma not_read_not_consumed: "v \<notin> set READ_VARS \<Longrightarrow> \<not> consumes v"
proof
  assume v: "v \<notin> set READ_VARS" and "consumes v"
  then obtain init e0 e0' cs cs' where s: "same_but v e0 e0'"
    and l: "list_all2 (\<lambda>c c'. fst c = fst c' \<and> same_but v (snd c) (snd c')) cs cs'"
    and d: "session init e0 cs \<noteq> session init e0' cs'"
    unfolding consumes_def by blast
  from l have "list_all2 (\<lambda>c c'. fst c = fst c' \<and> agree READ_VARS (snd c) (snd c')) cs cs'"
    by (rule list_all2_mono) (simp add: same_but_agree [OF v])
  with same_but_agree [OF v s] have "session init e0 cs = session init e0' cs'"
    by (rule session_agree)
  with d show False by contradiction
qed

text \<open>
  Every variable that is read can change what a process does: ten of them change the
  configuration handed to \<^verbatim>\<open>init\<close>, and \<^verbatim>\<open>FIREBASE_PRIVATE_KEY\<close> decides on the server
  whether \<^verbatim>\<open>init\<close> is called at all.
\<close>

lemma consumes_by_config:
  assumes "same_but v e0 e0'"
    and "initConfig (getPrivateKey e0) e0 \<noteq> initConfig (getPrivateKey e0') e0'"
  shows "consumes v"
proof -
  let ?cs = "[(True, \<lambda>u. Some ''x'')]"
  have "list_all2 (\<lambda>c c'. fst c = fst c' \<and> same_but v (snd c) (snd c')) ?cs ?cs"
    by (simp add: same_but_def)
  moreover have "session accepting e0 ?cs \<noteq> session accepting e0' ?cs"
    using assms(2)
    by (simp add: session_def program_def load_def initAuth_def falsy_def accepting_def)
  ultimately show ?thesis
    unfolding consumes_def using assms(1) by blast
qed

lemma config_var_changes_config:
  assumes "v \<in> set READ_VARS" and "v \<noteq> ''FIREBASE_PRIVATE_KEY''"
  shows "initConfig (getPrivateKey (\<lambda>u. None)) (\<lambda>u. None) \<noteq>
    initConfig (getPrivateKey (\<lambda>u. if u = v then Some ''true'' else None))
      (\<lambda>u. if u = v then Some ''true'' else None)"
  using assms by (auto simp: READ_VARS_def initConfig_def getPrivateKey_def)

lemma consumes_private_key: "consumes ''FIREBASE_PRIVATE_KEY''"
proof -
  let ?e = "\<lambda>u. if u = ''FIREBASE_PRIVATE_KEY'' then None else Some ''x''"
  let ?cs = "[(False, \<lambda>u. Some ''x'')]"
  let ?cs' = "[(False, ?e)]"
  have "same_but ''FIREBASE_PRIVATE_KEY'' (\<lambda>u. None) (\<lambda>u. None)"
    by (simp add: same_but_def)
  moreover have "list_all2 (\<lambda>c c'. fst c = fst c' \<and>
      same_but ''FIREBASE_PRIVATE_KEY'' (snd c) (snd c')) ?cs ?cs'"
    by (simp add: same_but_def)
  moreover have "session accepting (\<lambda>u. None) ?cs \<noteq> session accepting (\<lambda>u. None) ?cs'"
    by (simp add: session_def program_def load_def initAuth_def falsy_def missingAdmin_def
        accepting_def)
  ultimately show ?thesis
    unfolding consumes_def by blast
qed

lemma read_consumed: "v \<in> set READ_VARS \<Longrightarrow> consumes v"
proof (cases "v = ''FIREBASE_PRIVATE_KEY''")
  case True
  then show ?thesis by (simp add: consumes_private_key)
next
  case False
  assume "v \<in> set READ_VARS"
  then have "initConfig (getPrivateKey (\<lambda>u. None)) (\<lambda>u. None) \<noteq>
    initConfig (getPrivateKey (\<lambda>u. if u = v then Some ''true'' else None))
      (\<lambda>u. if u = v then Some ''true'' else None)"
    using False by (rule config_var_changes_config)
  moreover have "same_but v (\<lambda>u. None) (\<lambda>u. if u = v then Some ''true'' else None)"
    by (simp add: same_but_def)
  ultimately show ?thesis by (rule consumes_by_config [rotated])
qed

subsection \<open>The claims\<close>

text \<open>
  Claim C1, as amended. In every process, whatever the sequence of calls of
  \<^verbatim>\<open>initAuth\<close> and whatever environment each call finds, \<^verbatim>\<open>init\<close> returns at most once;
  once a call of it has returned, no continuation of the sequence calls it again. A call
  of \<^verbatim>\<open>init\<close> that throws does not set the latch, so a later call of \<^verbatim>\<open>initAuth\<close> can
  call \<^verbatim>\<open>init\<close> again; where \<^verbatim>\<open>init\<close> never throws, it is called at most once.
\<close>

theorem init_returns_at_most_once:
  "initReturns (program init pk env0 cs) \<le> 1 \<and>
   (0 < initReturns (program init pk env0 cs) \<longrightarrow>
      (\<forall>cs'. initCount (program init pk env0 (cs @ cs')) = initCount (program init pk env0 cs))) \<and>
   ((\<forall>w c. init w c = Returned) \<longrightarrow> initCount (program init pk env0 cs) \<le> 1)"
proof (intro conjI)
  have t: "tied (program init pk env0 cs)" by (rule tied_program)
  show r: "initReturns (program init pk env0 cs) \<le> 1"
    using t by (simp add: tied_def split: if_splits)
  show "0 < initReturns (program init pk env0 cs) \<longrightarrow>
      (\<forall>cs'. initCount (program init pk env0 (cs @ cs')) = initCount (program init pk env0 cs))"
  proof (intro impI allI)
    fix cs'
    assume "0 < initReturns (program init pk env0 cs)"
    with t have "hasInitialized (program init pk env0 cs)"
      by (simp add: tied_def split: if_splits)
    then show "initCount (program init pk env0 (cs @ cs')) = initCount (program init pk env0 cs)"
      by (simp add: program_append run_latched)
  qed
  show "(\<forall>w c. init w c = Returned) \<longrightarrow> initCount (program init pk env0 cs) \<le> 1"
    using r by (simp add: all_returned_program)
qed

text \<open>
  A browser call with every variable set calls an \<^verbatim>\<open>init\<close> that accepts; two more calls,
  one of them on the server with other values, leave the count at one.
\<close>

theorem init_returns_at_most_once_witness:
  "0 < initReturns (program accepting (Some ''pk'') (\<lambda>v. Some ''x'') [(True, \<lambda>v. Some ''x'')]) \<and>
   initCount (program accepting (Some ''pk'') (\<lambda>v. Some ''x'')
      ([(True, \<lambda>v. Some ''x'')] @ [(False, \<lambda>v. Some ''y''), (True, \<lambda>v. Some ''z'')])) = 1"
proof -
  have h: "0 < initReturns
      (program accepting (Some ''pk'') (\<lambda>v. Some ''x'') [(True, \<lambda>v. Some ''x'')])"
    by (simp add: program_def load_def initAuth_def initReturns_def initReturned_def
        falsy_def accepting_def)
  have e: "initCount
      (program accepting (Some ''pk'') (\<lambda>v. Some ''x'') [(True, \<lambda>v. Some ''x'')]) = 1"
    by (simp add: program_def load_def initAuth_def initCount_def falsy_def accepting_def)
  from init_returns_at_most_once
    [of accepting "Some ''pk''" "\<lambda>v. Some ''x''" "[(True, \<lambda>v. Some ''x'')]"] h e
  show ?thesis by simp
qed

text \<open>
  The claim as first stated says that \<^verbatim>\<open>init\<close> is called at most once. With an \<^verbatim>\<open>init\<close>
  that rejects the configuration, two calls of \<^verbatim>\<open>initAuth\<close> in the same environment call
  it twice.
\<close>

theorem init_invoked_twice_when_it_throws:
  "initCount (program rejecting (Some ''pk'') (\<lambda>v. Some ''x'')
      [(True, \<lambda>v. Some ''x''), (True, \<lambda>v. Some ''x'')]) = 2"
  by (simp add: program_def load_def initAuth_def initCount_def falsy_def rejecting_def)

text \<open>
  Claim C2. When \<^verbatim>\<open>NEXT_PUBLIC_FIREBASE_PUBLIC_API_KEY\<close> is unset or empty, a call of
  \<^verbatim>\<open>initAuth\<close> in a process whose latch is clear writes the missing-key warning, returns,
  and does nothing else: \<^verbatim>\<open>init\<close> is not called and the latch stays clear. This holds in
  the browser and on the server, whatever the other variables and the library are.
\<close>

theorem initAuth_missing_api_key:
  assumes "\<not> hasInitialized st"
    and "env ''NEXT_PUBLIC_FIREBASE_PUBLIC_API_KEY'' = None \<or>
         env ''NEXT_PUBLIC_FIREBASE_PUBLIC_API_KEY'' = Some ''''"
  shows "initAuth init cfg w env st =
           (Returned, st\<lparr> effects := effects st @ [Warn MISSING_API_KEY] \<rparr>) \<and>
         warnings (snd (initAuth init cfg w env st)) = warnings st @ [MISSING_API_KEY] \<and>
         initCount (snd (initAuth init cfg w env st)) = initCount st \<and>
         \<not> hasInitialized (snd (initAuth init cfg w env st))"
  using assms by (auto simp: initAuth_def falsy_def warnings_def initCount_def)

text \<open>The first call of a process, with the key unset on the server and empty in the browser.\<close>

theorem initAuth_missing_api_key_witness:
  "initAuth rejecting (initConfig None (\<lambda>v. None)) False (\<lambda>v. None) load =
     (Returned, \<lparr> hasInitialized = False, effects = [Warn MISSING_API_KEY] \<rparr>) \<and>
   initAuth accepting (initConfig None (\<lambda>v. Some '''')) True (\<lambda>v. Some '''') load =
     (Returned, \<lparr> hasInitialized = False, effects = [Warn MISSING_API_KEY] \<rparr>)"
proof -
  have h: "\<not> hasInitialized load" by (simp add: load_def)
  show ?thesis
    using initAuth_missing_api_key
        [where st = load and env = "\<lambda>v. None" and cfg = "initConfig None (\<lambda>v. None)"
           and w = False and init = rejecting]
      initAuth_missing_api_key
        [where st = load and env = "\<lambda>v. Some ''''" and cfg = "initConfig None (\<lambda>v. Some '''')"
           and w = True and init = accepting]
    by (simp add: load_def)
qed

text \<open>
  Claim C3. On the server (\<^verbatim>\<open>typeof window\<close> is \<^verbatim>\<open>"undefined"\<close>), with the public API key
  present and at least one of the six Admin and cookie variables unset or empty, a call of
  \<^verbatim>\<open>initAuth\<close> in a process whose latch is clear writes a warning that is not the
  missing-key warning, and returns: \<^verbatim>\<open>init\<close> is not called and the latch stays clear.
\<close>

theorem initAuth_server_missing_admin:
  assumes "\<not> hasInitialized st"
    and "env ''NEXT_PUBLIC_FIREBASE_PUBLIC_API_KEY'' = Some k" and "k \<noteq> ''''"
    and "v \<in> {''NEXT_PUBLIC_FIREBASE_PROJECT_ID'', ''NEXT_PUBLIC_FIREBASE_DATABASE_URL'',
               ''FIREBASE_CLIENT_EMAIL'', ''FIREBASE_PRIVATE_KEY'',
               ''COOKIE_SECRET_CURRENT'', ''COOKIE_SECRET_PREVIOUS''}"
    and "env v = None \<or> env v = Some ''''"
  shows "initAuth init cfg False env st =
           (Returned, st\<lparr> effects := effects st @ [Warn MISSING_ADMIN] \<rparr>) \<and>
         MISSING_ADMIN \<noteq> MISSING_API_KEY \<and>
         warnings (snd (initAuth init cfg False env st)) = warnings st @ [MISSING_ADMIN] \<and>
         initCount (snd (initAuth init cfg False env st)) = initCount st \<and>
         \<not> hasInitialized (snd (initAuth init cfg False env st))"
proof -
  have m: "missingAdmin env"
    using assms(4,5) unfolding missingAdmin_def falsy_iff by blast
  have k: "\<not> falsy (env ''NEXT_PUBLIC_FIREBASE_PUBLIC_API_KEY'')"
    using assms(2,3) by (simp add: falsy_def)
  have d: "MISSING_ADMIN \<noteq> MISSING_API_KEY"
    by (simp add: MISSING_ADMIN_def MISSING_API_KEY_def)
  show ?thesis
    using assms(1) m k d by (simp add: initAuth_def warnings_def initCount_def)
qed

text \<open>The first call of a server process in which only \<^verbatim>\<open>FIREBASE_PRIVATE_KEY\<close> is unset.\<close>

theorem initAuth_server_missing_admin_witness:
  "initAuth rejecting (initConfig None (\<lambda>v. Some ''x'')) False
      (\<lambda>v. if v = ''FIREBASE_PRIVATE_KEY'' then None else Some ''x'') load =
     (Returned, \<lparr> hasInitialized = False, effects = [Warn MISSING_ADMIN] \<rparr>) \<and>
   MISSING_ADMIN \<noteq> MISSING_API_KEY"
  using initAuth_server_missing_admin
    [where st = load and k = "''x''" and v = "''FIREBASE_PRIVATE_KEY''"
       and env = "\<lambda>v. if v = ''FIREBASE_PRIVATE_KEY'' then None else Some ''x''"
       and cfg = "initConfig None (\<lambda>v. Some ''x'')" and init = rejecting]
  by (simp add: load_def)

text \<open>
  Claim C4, as amended. In every environment, in the browser and on the server, every
  branch of \<^verbatim>\<open>initAuth\<close> for a missing configuration ends in one console warning and a
  return, never in a raised error, and a call that finds the latch set returns at once.
  A call of \<^verbatim>\<open>initAuth\<close> throws exactly when it reaches \<^verbatim>\<open>init\<close> (the latch is clear, the
  API key is present and, on the server, the six Admin and cookie variables are present
  too) and \<^verbatim>\<open>init\<close> itself throws: nothing catches that exception.
\<close>

theorem initAuth_throws_only_when_init_throws:
  "(fst (initAuth init cfg w env st) = Threw \<longleftrightarrow>
      \<not> hasInitialized st \<and>
      (\<exists>k. env ''NEXT_PUBLIC_FIREBASE_PUBLIC_API_KEY'' = Some k \<and> k \<noteq> '''') \<and>
      (w \<or> (\<forall>v \<in> {''NEXT_PUBLIC_FIREBASE_PROJECT_ID'', ''NEXT_PUBLIC_FIREBASE_DATABASE_URL'',
                    ''FIREBASE_CLIENT_EMAIL'', ''FIREBASE_PRIVATE_KEY'',
                    ''COOKIE_SECRET_CURRENT'', ''COOKIE_SECRET_PREVIOUS''}.
               \<exists>x. env v = Some x \<and> x \<noteq> '''')) \<and>
      init w cfg = Threw) \<and>
   (\<not> hasInitialized st \<and>
      (env ''NEXT_PUBLIC_FIREBASE_PUBLIC_API_KEY'' = None \<or>
       env ''NEXT_PUBLIC_FIREBASE_PUBLIC_API_KEY'' = Some '''') \<longrightarrow>
      initAuth init cfg w env st =
        (Returned, st\<lparr> effects := effects st @ [Warn MISSING_API_KEY] \<rparr>)) \<and>
   (\<not> hasInitialized st \<and>
      (\<exists>k. env ''NEXT_PUBLIC_FIREBASE_PUBLIC_API_KEY'' = Some k \<and> k \<noteq> '''') \<and> \<not> w \<and>
      (\<exists>v \<in> {''NEXT_PUBLIC_FIREBASE_PROJECT_ID'', ''NEXT_PUBLIC_FIREBASE_DATABASE_URL'',
               ''FIREBASE_CLIENT_EMAIL'', ''FIREBASE_PRIVATE_KEY'',
               ''COOKIE_SECRET_CURRENT'', ''COOKIE_SECRET_PREVIOUS''}.
          env v = None \<or> env v = Some '''') \<longrightarrow>
      initAuth init cfg w env st =
        (Returned, st\<lparr> effects := effects st @ [Warn MISSING_ADMIN] \<rparr>)) \<and>
   (hasInitialized st \<longrightarrow> initAuth init cfg w env st = (Returned, st))"
  unfolding missingAdmin_iff not_missingAdmin_iff
  unfolding not_falsy_iff falsy_iff [symmetric]
  by (auto simp: initAuth_def split: completion.splits)

text \<open>
  With no variable set, the first call on the server warns and returns, though \<^verbatim>\<open>init\<close>
  would reject the configuration.
\<close>

theorem initAuth_throws_only_when_init_throws_witness:
  "initAuth rejecting (initConfig None (\<lambda>v. None)) False (\<lambda>v. None) load =
     (Returned, load\<lparr> effects := effects load @ [Warn MISSING_API_KEY] \<rparr>) \<and>
   fst (initAuth rejecting (initConfig None (\<lambda>v. None)) False (\<lambda>v. None) load) \<noteq> Threw"
  using initAuth_throws_only_when_init_throws
    [of rejecting "initConfig None (\<lambda>v. None)" False "\<lambda>v. None" load]
  by (simp add: load_def)

text \<open>
  The claim as first stated says that no call throws, in any environment. With every
  variable set, both guards pass on the server, and an \<^verbatim>\<open>init\<close> that rejects the
  configuration makes \<^verbatim>\<open>initAuth\<close> throw.
\<close>

theorem initAuth_throws_when_init_throws:
  "fst (initAuth rejecting (initConfig (Some ''pk'') (\<lambda>v. Some ''x'')) False
      (\<lambda>v. Some ''x'') load) = Threw"
  by (simp add: initAuth_def load_def falsy_def missingAdmin_def rejecting_def)

text \<open>
  Claim C5, as amended. Two processes whose environments agree on the variables the README
  lists (when the module is evaluated and at each call), with the same \<^verbatim>\<open>typeof window\<close>
  at each call, do the same: the same warnings, the same calls of \<^verbatim>\<open>init\<close> with the same
  configuration, the same latch. The module consumes no variable outside that list; of
  the listed ones it consumes all but \<^verbatim>\<open>NEXT_PUBLIC_FIREBASE_APP_ID\<close>, which it never
  reads.
\<close>

theorem initAuth_depends_on_README_vars_only:
  "(agree README_VARS env0 env0' \<and> agree_calls README_VARS cs cs' \<longrightarrow>
      session init env0 cs = session init env0' cs') \<and>
   (consumes v \<longleftrightarrow> v \<in> set README_VARS \<and> v \<noteq> ''NEXT_PUBLIC_FIREBASE_APP_ID'')"
proof
  show "agree README_VARS env0 env0' \<and> agree_calls README_VARS cs cs' \<longrightarrow>
      session init env0 cs = session init env0' cs'"
  proof
    assume a: "agree README_VARS env0 env0' \<and> agree_calls README_VARS cs cs'"
    then have "agree READ_VARS env0 env0'"
      using agree_mono [OF READ_subset_README] by blast
    moreover from a have
      "list_all2 (\<lambda>c c'. fst c = fst c' \<and> agree README_VARS (snd c) (snd c')) cs cs'"
      by (simp add: agree_calls_def)
    then have "list_all2 (\<lambda>c c'. fst c = fst c' \<and> agree READ_VARS (snd c) (snd c')) cs cs'"
      by (rule list_all2_mono) (simp add: agree_mono [OF READ_subset_README])
    ultimately show "session init env0 cs = session init env0' cs'"
      by (rule session_agree)
  qed
  show "consumes v \<longleftrightarrow> v \<in> set README_VARS \<and> v \<noteq> ''NEXT_PUBLIC_FIREBASE_APP_ID''"
    using not_read_not_consumed [of v] read_consumed [of v] READ_VARS_eq [of v] by blast
qed

text \<open>
  Two server processes that differ in \<^verbatim>\<open>HOME\<close> only, a variable the README does not
  list, do the same; \<^verbatim>\<open>FIREBASE_PRIVATE_KEY\<close> is consumed and \<^verbatim>\<open>HOME\<close> is not.
\<close>

theorem initAuth_depends_on_README_vars_only_witness:
  "session accepting (\<lambda>u. Some ''x'') [(False, \<lambda>u. Some ''x'')] =
     session accepting (\<lambda>u. if u = ''HOME'' then Some ''/root'' else Some ''x'')
       [(False, \<lambda>u. if u = ''HOME'' then None else Some ''x'')] \<and>
   consumes ''FIREBASE_PRIVATE_KEY'' \<and> \<not> consumes ''HOME''"
proof -
  have a: "agree README_VARS (\<lambda>u. Some ''x'')
      (\<lambda>u. if u = ''HOME'' then Some ''/root'' else Some ''x'')"
    by (simp add: agree_def README_VARS_def)
  have b: "agree_calls README_VARS [(False, \<lambda>u. Some ''x'')]
      [(False, \<lambda>u. if u = ''HOME'' then None else Some ''x'')]"
    by (simp add: agree_calls_def agree_def README_VARS_def)
  show ?thesis
    using a b
      initAuth_depends_on_README_vars_only
        [where ?env0.0 = "\<lambda>u. Some ''x''"
           and env0' = "\<lambda>u. if u = ''HOME'' then Some ''/root'' else Some ''x''"
           and cs = "[(False, \<lambda>u. Some ''x'')]"
           and cs' = "[(False, \<lambda>u. if u = ''HOME'' then None else Some ''x'')]"
           and init = accepting and v = "''FIREBASE_PRIVATE_KEY''"]
      initAuth_depends_on_README_vars_only
        [where ?env0.0 = "\<lambda>u. Some ''x''" and env0' = "\<lambda>u. Some ''x''"
           and cs = "[]" and cs' = "[]" and init = accepting and v = "''HOME''"]
    by (simp add: README_VARS_def)
qed

text \<open>
  The claim as first stated says that the module consumes exactly the variables of the
  README. It does not: the README lists \<^verbatim>\<open>NEXT_PUBLIC_FIREBASE_APP_ID\<close>, and no change of
  that variable alone changes anything a process does.
\<close>

theorem initAuth_app_id_not_consumed:
  "''NEXT_PUBLIC_FIREBASE_APP_ID'' \<in> set README_VARS \<and>
   \<not> consumes ''NEXT_PUBLIC_FIREBASE_APP_ID''"
proof
  show "''NEXT_PUBLIC_FIREBASE_APP_ID'' \<in> set README_VARS"
    by (simp add: README_VARS_def)
  have "''NEXT_PUBLIC_FIREBASE_APP_ID'' \<notin> set READ_VARS"
    by (simp add: READ_VARS_def)
  then show "\<not> consumes ''NEXT_PUBLIC_FIREBASE_APP_ID''"
    by (rule not_read_not_consumed)
qed

text \<open>
  Claim C6. Whenever a process calls \<^verbatim>\<open>init\<close>, the argument is the module's constant
  \<^verbatim>\<open>initConfig\<close>, built once when the module was evaluated: its fields hold the values the
  variables had then, as they were read, and the private key is the value
  \<^verbatim>\<open>getPrivateKey\<close> returned, whatever that value is. The environments of the calls play
  no part in it, and neither does the way the call of \<^verbatim>\<open>init\<close> ends.
\<close>

theorem init_receives_initConfig:
  assumes "Init c r \<in> set (effects (program init pk env0 cs))"
  shows "c = initConfig pk env0 \<and>
    apiKey (firebaseClientInitConfig c) = env0 ''NEXT_PUBLIC_FIREBASE_PUBLIC_API_KEY'' \<and>
    projectId (credential (firebaseAdminInitConfig c)) = env0 ''NEXT_PUBLIC_FIREBASE_PROJECT_ID'' \<and>
    clientEmail (credential (firebaseAdminInitConfig c)) = env0 ''FIREBASE_CLIENT_EMAIL'' \<and>
    privateKey (credential (firebaseAdminInitConfig c)) = pk \<and>
    databaseURL (firebaseAdminInitConfig c) = env0 ''NEXT_PUBLIC_FIREBASE_DATABASE_URL'' \<and>
    storageBucket (firebaseAdminInitConfig c) = env0 ''NEXT_PUBLIC_STORAGE_BUCKET'' \<and>
    clientDatabaseURL (firebaseClientInitConfig c) = env0 ''NEXT_PUBLIC_FIREBASE_DATABASE_URL'' \<and>
    clientStorageBucket (firebaseClientInitConfig c) = env0 ''NEXT_PUBLIC_STORAGE_BUCKET''"
proof -
  have "c = initConfig pk env0"
    using assms by (rule init_events_program)
  then show ?thesis by (simp add: initConfig_def)
qed

text \<open>
  A module evaluated with every variable \<^verbatim>\<open>"x"\<close> and called in the browser with every
  variable \<^verbatim>\<open>"y"\<close> passes the key \<^verbatim>\<open>"x"\<close>.
\<close>

theorem init_receives_initConfig_witness:
  "Init (initConfig (Some ''pk'') (\<lambda>v. Some ''x'')) Returned \<in>
     set (effects (program accepting (Some ''pk'') (\<lambda>v. Some ''x'') [(True, \<lambda>v. Some ''y'')])) \<and>
   apiKey (firebaseClientInitConfig (initConfig (Some ''pk'') (\<lambda>v. Some ''x''))) = Some ''x'' \<and>
   privateKey (credential (firebaseAdminInitConfig (initConfig (Some ''pk'') (\<lambda>v. Some ''x'')))) =
     Some ''pk''"
proof -
  have h: "Init (initConfig (Some ''pk'') (\<lambda>v. Some ''x'')) Returned \<in>
     set (effects (program accepting (Some ''pk'') (\<lambda>v. Some ''x'') [(True, \<lambda>v. Some ''y'')]))"
    by (simp add: program_def load_def initAuth_def falsy_def accepting_def)
  show ?thesis
    using h init_receives_initConfig [OF h] by simp
qed

text \<open>
  Claim C7, as amended. In the browser (\<^verbatim>\<open>typeof window\<close> is not \<^verbatim>\<open>"undefined"\<close>), with the
  public API key present, a call of \<^verbatim>\<open>initAuth\<close> in a process whose latch is clear calls
  \<^verbatim>\<open>init\<close>, whatever the other variables are: the check of the Admin and cookie
  variables is not made there. It sets the latch when \<^verbatim>\<open>init\<close> returns; when \<^verbatim>\<open>init\<close>
  throws, the call throws and the latch stays clear.
\<close>

theorem initAuth_client_invokes_init_without_admin:
  assumes "\<not> hasInitialized st"
    and "env ''NEXT_PUBLIC_FIREBASE_PUBLIC_API_KEY'' = Some k" and "k \<noteq> ''''"
  shows "initAuth init cfg True env st =
           (init True cfg,
            st\<lparr> effects := effects st @ [Init cfg (init True cfg)],
                hasInitialized := (init True cfg = Returned) \<rparr>) \<and>
         (hasInitialized (snd (initAuth init cfg True env st)) \<longleftrightarrow> init True cfg = Returned) \<and>
         initCount (snd (initAuth init cfg True env st)) = Suc (initCount st) \<and>
         warnings (snd (initAuth init cfg True env st)) = warnings st"
  using assms
  by (cases "init True cfg") (simp_all add: initAuth_def falsy_def initCount_def warnings_def)

text \<open>
  The first call of a browser process in which the API key is the only variable set, with
  an \<^verbatim>\<open>init\<close> that accepts.
\<close>

theorem initAuth_client_invokes_init_without_admin_witness:
  "initAuth accepting (initConfig None (\<lambda>v. None)) True
      (\<lambda>v. if v = ''NEXT_PUBLIC_FIREBASE_PUBLIC_API_KEY'' then Some ''k'' else None) load =
     (Returned, \<lparr> hasInitialized = True,
        effects = [Init (initConfig None (\<lambda>v. None)) Returned] \<rparr>) \<and>
   missingAdmin (\<lambda>v. if v = ''NEXT_PUBLIC_FIREBASE_PUBLIC_API_KEY'' then Some ''k'' else None)"
  using initAuth_client_invokes_init_without_admin
    [where st = load and k = "''k''" and init = accepting
       and env = "\<lambda>v. if v = ''NEXT_PUBLIC_FIREBASE_PUBLIC_API_KEY'' then Some ''k'' else None"
       and cfg = "initConfig None (\<lambda>v. None)"]
  by (simp add: load_def missingAdmin_def falsy_def accepting_def)

text \<open>
  The claim as first stated says that the call sets the latch. With an \<^verbatim>\<open>init\<close> that
  rejects the configuration, the same call leaves the latch clear.
\<close>

theorem initAuth_client_latch_clear_when_init_throws:
  "\<not> hasInitialized (snd (initAuth rejecting (initConfig None (\<lambda>v. None)) True
      (\<lambda>v. if v = ''NEXT_PUBLIC_FIREBASE_PUBLIC_API_KEY'' then Some ''k'' else None) load))"
  by (simp add: initAuth_def load_def falsy_def rejecting_def)




text \<open>
  Claim C9, as amended. The latch starts clear; a call never clears it; a call that finds
  it clear sets it exactly when the one thing the call does is a call of \<^verbatim>\<open>init\<close> that
  returns; so in every process the latch is set if and only if \<^verbatim>\<open>init\<close> has been called
  and has returned (a call of \<^verbatim>\<open>init\<close> that throws leaves it clear). Once it is set, a
  call returns and changes nothing, whatever the environment and \<^verbatim>\<open>typeof window\<close> are:
  it reads no variable and writes no warning.
\<close>

theorem hasInitialized_latch:
  "\<not> hasInitialized load \<and>
   (hasInitialized st \<longrightarrow> hasInitialized (snd (initAuth init cfg w env st))) \<and>
   (\<not> hasInitialized st \<longrightarrow>
      (hasInitialized (snd (initAuth init cfg w env st)) \<longleftrightarrow>
        effects (snd (initAuth init cfg w env st)) = effects st @ [Init cfg Returned])) \<and>
   (hasInitialized (program init pk env0 cs) \<longleftrightarrow> 0 < initReturns (program init pk env0 cs)) \<and>
   (hasInitialized (program init pk env0 cs) \<longrightarrow> 0 < initCount (program init pk env0 cs)) \<and>
   (hasInitialized st \<longrightarrow> (\<forall>w' env'. initAuth init cfg w' env' st = (Returned, st)))"
proof (intro conjI)
  have t: "tied (program init pk env0 cs)" by (rule tied_program)
  show "\<not> hasInitialized load" by (simp add: load_def)
  show "hasInitialized st \<longrightarrow> hasInitialized (snd (initAuth init cfg w env st))"
    by (simp add: initAuth_def)
  show "\<not> hasInitialized st \<longrightarrow>
      (hasInitialized (snd (initAuth init cfg w env st)) \<longleftrightarrow>
        effects (snd (initAuth init cfg w env st)) = effects st @ [Init cfg Returned])"
    by (cases "init w cfg") (simp_all add: initAuth_def)
  show r: "hasInitialized (program init pk env0 cs) \<longleftrightarrow>
      0 < initReturns (program init pk env0 cs)"
    using t by (simp add: tied_def split: if_splits)
  have "initReturns (program init pk env0 cs) \<le> initCount (program init pk env0 cs)"
    using returns_le_count by simp
  with r show "hasInitialized (program init pk env0 cs) \<longrightarrow>
      0 < initCount (program init pk env0 cs)"
    by simp
  show "hasInitialized st \<longrightarrow> (\<forall>w' env'. initAuth init cfg w' env' st = (Returned, st))"
    by (simp add: initAuth_latched)
qed

text \<open>
  A server process whose first call finds no variable and whose second call finds them
  all has the latch set, \<^verbatim>\<open>init\<close> accepting; a third call with no variable changes nothing.
\<close>

theorem hasInitialized_latch_witness:
  "hasInitialized
     (program accepting None (\<lambda>v. Some ''x'') [(False, \<lambda>v. None), (False, \<lambda>v. Some ''x'')]) \<and>
   initAuth accepting (initConfig None (\<lambda>v. Some ''x'')) False (\<lambda>v. None)
     (program accepting None (\<lambda>v. Some ''x'') [(False, \<lambda>v. None), (False, \<lambda>v. Some ''x'')]) =
     (Returned,
      program accepting None (\<lambda>v. Some ''x'') [(False, \<lambda>v. None), (False, \<lambda>v. Some ''x'')]) \<and>
   0 < initReturns
     (program accepting None (\<lambda>v. Some ''x'') [(False, \<lambda>v. None), (False, \<lambda>v. Some ''x'')])"
proof -
  have h: "hasInitialized
      (program accepting None (\<lambda>v. Some ''x'') [(False, \<lambda>v. None), (False, \<lambda>v. Some ''x'')])"
    by (simp add: program_def load_def initAuth_def falsy_def missingAdmin_def accepting_def)
  show ?thesis
    using h hasInitialized_latch
      [where st = "program accepting None (\<lambda>v. Some ''x'')
            [(False, \<lambda>v. None), (False, \<lambda>v. Some ''x'')]"
         and cfg = "initConfig None (\<lambda>v. Some ''x'')" and w = False and env = "\<lambda>v. None"
         and pk = None and ?env0.0 = "\<lambda>v. Some ''x''" and init = accepting
         and cs = "[(False, \<lambda>v. None), (False, \<lambda>v. Some ''x'')]"]
    by simp
qed

text \<open>
  The claim as first stated says that the latch is set if and only if \<^verbatim>\<open>init\<close> has been
  called. With an \<^verbatim>\<open>init\<close> that rejects the configuration, \<^verbatim>\<open>init\<close> has been called and
  the latch is clear.
\<close>

theorem init_invoked_and_latch_clear:
  "0 < initCount (program rejecting None (\<lambda>v. Some ''x'') [(False, \<lambda>v. Some ''x'')]) \<and>
   \<not> hasInitialized (program rejecting None (\<lambda>v. Some ''x'') [(False, \<lambda>v. Some ''x'')])"
  by (simp add: program_def load_def initAuth_def falsy_def missingAdmin_def rejecting_def
      initCount_def)

text \<open>
  Claim C10. The field \<^verbatim>\<open>secure\<close> of the cookie configuration is true if and only if
  \<^verbatim>\<open>NEXT_PUBLIC_COOKIE_SECURE\<close> is the string \<^verbatim>\<open>"true"\<close>; for every other value, and when
  the variable is unset, it is false.
\<close>

theorem cookie_secure_iff:
  "secure (cookies (initConfig pk env)) \<longleftrightarrow> env ''NEXT_PUBLIC_COOKIE_SECURE'' = Some ''true''"
  by (simp add: initConfig_def)

text \<open>The values \<^verbatim>\<open>"true"\<close>, unset, empty, \<^verbatim>\<open>"TRUE"\<close> and \<^verbatim>\<open>"1"\<close>.\<close>

theorem cookie_secure_iff_witness:
  "secure (cookies (initConfig None
      (\<lambda>v. if v = ''NEXT_PUBLIC_COOKIE_SECURE'' then Some ''true'' else None))) \<and>
   \<not> secure (cookies (initConfig None (\<lambda>v. None))) \<and>
   \<not> secure (cookies (initConfig None
      (\<lambda>v. if v = ''NEXT_PUBLIC_COOKIE_SECURE'' then Some '''' else None))) \<and>
   \<not> secure (cookies (initConfig None
      (\<lambda>v. if v = ''NEXT_PUBLIC_COOKIE_SECURE'' then Some ''TRUE'' else None))) \<and>
   \<not> secure (cookies (initConfig None
      (\<lambda>v. if v = ''NEXT_PUBLIC_COOKIE_SECURE'' then Some ''1'' else None)))"
  using cookie_secure_iff
      [of None "\<lambda>v. if v = ''NEXT_PUBLIC_COOKIE_SECURE'' then Some ''true'' else None"]
    cookie_secure_iff [of None "\<lambda>v. None"]
    cookie_secure_iff
      [of None "\<lambda>v. if v = ''NEXT_PUBLIC_COOKIE_SECURE'' then Some '''' else None"]
    cookie_secure_iff
      [of None "\<lambda>v. if v = ''NEXT_PUBLIC_COOKIE_SECURE'' then Some ''TRUE'' else None"]
    cookie_secure_iff
      [of None "\<lambda>v. if v = ''NEXT_PUBLIC_COOKIE_SECURE'' then Some ''1'' else None"]
  by simp

end
